theory Spec2Isabelle
  imports Main "HOL-Library.Log_Nat" "HOL-Library.Multiset"
begin

section \<open>JavaScript numbers\<close>

text \<open>
  Every numeric value of \<^verbatim>\<open>App.jsx\<close> is a JavaScript Number, an IEEE-754 binary64
  value. A number is \<open>NaN\<close>, an infinity with its sign, or a finite value with its sign
  (\<open>True\<close> is negative) and its magnitude as a rational; \<open>Finite True 0\<close> is the
  negative zero. The results of the operations are rounded to the nearest binary64
  value, ties to the even significand, as the language requires.
\<close>

datatype jsnum = NaN | Infinity bool | Finite bool rat

definition pow2 :: "int \<Rightarrow> rat" where
  "pow2 k = (if 0 \<le> k then 2 ^ nat k else 1 / 2 ^ nat (- k))"

text \<open>The exponent \<open>e\<close> with \<open>2^e \<le> q < 2^(e+1)\<close>, for a positive rational \<open>q\<close>.\<close>

definition floor_log2 :: "rat \<Rightarrow> int" where
  "floor_log2 q =
     (let (a, b) = quotient_of q;
          k = bitlen a - bitlen b
      in if pow2 k \<le> q then k else k - 1)"

definition round_half_even :: "rat \<Rightarrow> int" where
  "round_half_even m =
     (let f = \<lfloor>m\<rfloor>; r = m - of_int f
      in if r < 1 / 2 then f
         else if 1 / 2 < r then f + 1
         else if even f then f else f + 1)"

text \<open>
  Rounding of a magnitude to binary64: 53 significant bits, the least exponent -1022
  (below it the values are subnormal, with the fixed spacing \<open>2^-1074\<close>), and
  \<open>None\<close> when the rounded magnitude reaches \<open>2^1024\<close> (overflow): the exponent
  is above 1023, or it is 1023 and the significand rounds up to \<open>2^53\<close>.
\<close>

definition round_double :: "rat \<Rightarrow> rat option" where
  "round_double q =
     (if q = 0 then Some 0
      else let e = max (floor_log2 q) (- 1022);
               ulp = pow2 (e - 52);
               n = round_half_even (q / ulp)
           in if 1023 < e \<or> (e = 1023 \<and> 2 ^ 53 \<le> n) then None
              else Some (of_int n * ulp))"

definition mk_number :: "bool \<Rightarrow> rat \<Rightarrow> jsnum" where
  "mk_number s q = (case round_double q of None \<Rightarrow> Infinity s | Some v \<Rightarrow> Finite s v)"

fun js_neg :: "jsnum \<Rightarrow> jsnum" where
  "js_neg NaN = NaN"
| "js_neg (Infinity s) = Infinity (\<not> s)"
| "js_neg (Finite s q) = Finite (\<not> s) q"

definition signed :: "bool \<Rightarrow> rat \<Rightarrow> rat" where
  "signed s q = (if s then - q else q)"

fun js_add :: "jsnum \<Rightarrow> jsnum \<Rightarrow> jsnum" where
  "js_add NaN y = NaN"
| "js_add x NaN = NaN"
| "js_add (Infinity s) (Infinity t) = (if s = t then Infinity s else NaN)"
| "js_add (Infinity s) (Finite t q) = Infinity s"
| "js_add (Finite s p) (Infinity t) = Infinity t"
| "js_add (Finite s p) (Finite t q) =
     (let d = signed s p + signed t q
      in if d = 0 then Finite (s \<and> t) 0 else mk_number (d < 0) \<bar>d\<bar>)"

text \<open>The operator \<^verbatim>\<open>-\<close>: \<open>x - y\<close> is \<open>x + (-y)\<close>.\<close>

definition js_sub :: "jsnum \<Rightarrow> jsnum \<Rightarrow> jsnum" where
  "js_sub x y = js_add x (js_neg y)"

text \<open>The operator \<^verbatim>\<open>*\<close>.\<close>

fun js_mul :: "jsnum \<Rightarrow> jsnum \<Rightarrow> jsnum" where
  "js_mul NaN y = NaN"
| "js_mul x NaN = NaN"
| "js_mul (Infinity s) (Infinity t) = Infinity (s \<noteq> t)"
| "js_mul (Infinity s) (Finite t q) = (if q = 0 then NaN else Infinity (s \<noteq> t))"
| "js_mul (Finite s p) (Infinity t) = (if p = 0 then NaN else Infinity (s \<noteq> t))"
| "js_mul (Finite s p) (Finite t q) = mk_number (s \<noteq> t) (p * q)"

text \<open>The operator \<^verbatim>\<open>/\<close>: a division by zero is an infinity or \<open>NaN\<close>, never an error.\<close>

fun js_div :: "jsnum \<Rightarrow> jsnum \<Rightarrow> jsnum" where
  "js_div NaN y = NaN"
| "js_div x NaN = NaN"
| "js_div (Infinity s) (Infinity t) = NaN"
| "js_div (Infinity s) (Finite t q) = Infinity (s \<noteq> t)"
| "js_div (Finite s p) (Infinity t) = Finite (s \<noteq> t) 0"
| "js_div (Finite s p) (Finite t q) =
     (if q = 0 then (if p = 0 then NaN else Infinity (s \<noteq> t))
      else mk_number (s \<noteq> t) (p / q))"

text \<open>\<^verbatim>\<open>Number.isNaN\<close>, \<^verbatim>\<open>Number.isFinite\<close> and the comparison with zero.\<close>

fun isNaN :: "jsnum \<Rightarrow> bool" where
  "isNaN NaN = True"
| "isNaN x = False"

fun isFinite :: "jsnum \<Rightarrow> bool" where
  "isFinite (Finite s q) = True"
| "isFinite x = False"

fun is_zero :: "jsnum \<Rightarrow> bool" where
  "is_zero (Finite s q) = (q = 0)"
| "is_zero x = False"

section \<open>JavaScript strings\<close>

text \<open>
  A string is a list of characters, each standing for one UTF-16 code unit below 256.
  The white space that \<^verbatim>\<open>trim\<close> and \<^verbatim>\<open>parseFloat\<close> strip is, in that range, the
  code units 9 to 13, 32 and 160.
\<close>

definition is_space :: "char \<Rightarrow> bool" where
  "is_space c = ((of_char c :: nat) \<in> {9, 10, 11, 12, 13, 32, 160})"

definition is_digit :: "char \<Rightarrow> bool" where
  "is_digit c = (48 \<le> (of_char c :: nat) \<and> (of_char c :: nat) \<le> 57)"

definition trimStart :: "string \<Rightarrow> string" where
  "trimStart s = dropWhile is_space s"

definition trim :: "string \<Rightarrow> string" where
  "trim s = rev (dropWhile is_space (rev (dropWhile is_space s)))"

fun digits_value :: "int \<Rightarrow> string \<Rightarrow> int" where
  "digits_value acc [] = acc"
| "digits_value acc (c # cs) = digits_value (10 * acc + (of_char c - 48)) cs"

definition pow10 :: "int \<Rightarrow> rat" where
  "pow10 k = (if 0 \<le> k then 10 ^ nat k else 1 / 10 ^ nat (- k))"

text \<open>An optional sign: whether it is a minus, and the rest of the string.\<close>

fun split_sign :: "string \<Rightarrow> bool \<times> string" where
  "split_sign [] = (False, [])"
| "split_sign (c # cs) =
     (if c = CHR ''-'' then (True, cs)
      else if c = CHR ''+'' then (False, cs)
      else (False, c # cs))"

text \<open>
  The exponent part of a decimal literal: \<^verbatim>\<open>e\<close> or \<^verbatim>\<open>E\<close>, an optional sign and at
  least one digit; anything else is no exponent part, and the literal ends before it.
\<close>

fun exponent_part :: "string \<Rightarrow> int" where
  "exponent_part [] = 0"
| "exponent_part (c # cs) =
     (if c = CHR ''e'' \<or> c = CHR ''E'' then
        (let (neg, ds) = split_sign cs; ex = takeWhile is_digit ds
         in if ex = [] then 0
            else if neg then - digits_value 0 ex else digits_value 0 ex)
      else 0)"

text \<open>
  \<^verbatim>\<open>parseFloat\<close>: leading white space is skipped, the longest prefix that is a decimal
  literal (\<^verbatim>\<open>Infinity\<close>, or digits with an optional fraction and exponent, after an
  optional sign) is converted, and \<open>NaN\<close> is the result when there is no such prefix.
  The decimal value is rounded to the nearest number, as the engines do for a literal
  of any length.
\<close>

definition parseFloat :: "string \<Rightarrow> jsnum" where
  "parseFloat s =
     (let (neg, u) = split_sign (trimStart s)
      in if take 8 u = ''Infinity'' then Infinity neg
         else let ip = takeWhile is_digit u;
                  r1 = dropWhile is_digit u;
                  (fp, r2) = (case r1 of
                                [] \<Rightarrow> ([], r1)
                              | c # r \<Rightarrow> if c = CHR ''.''
                                         then (takeWhile is_digit r, dropWhile is_digit r)
                                         else ([], r1))
              in if ip = [] \<and> fp = [] then NaN
                 else mk_number neg
                        (of_int (digits_value 0 (ip @ fp))
                           * pow10 (exponent_part r2 - int (length fp))))"

section \<open>The state of the application\<close>

text \<open>
  The form (\<^verbatim>\<open>useState\<close> at line 33), the response of the scoring endpoint, the body
  of a request to it, and an asset of the registry (line 49). The fields of the payload
  and of the asset carry the prefixes \<open>p_\<close> and \<open>a_\<close>, since a field name belongs to one
  record only.
\<close>

record form =
  uid :: string
  air_temperature_k :: jsnum
  process_temperature_k :: jsnum
  rotational_speed_rpm :: jsnum
  torque_nm :: jsnum
  tool_wear_min :: jsnum
  type :: string

record prediction =
  failure_probability :: jsnum
  risk_level :: string

record payload =
  p_air_temperature_k :: jsnum
  p_process_temperature_k :: jsnum
  p_rotational_speed_rpm :: jsnum
  p_torque_nm :: jsnum
  p_tool_wear_min :: jsnum
  p_power :: jsnum
  p_power_wear :: jsnum
  p_temperature_difference :: jsnum
  p_temperature_power :: jsnum
  p_type_l :: nat
  p_type_m :: nat
  p_type :: string

record asset =
  a_id :: string
  a_type :: string
  a_torque_nm :: jsnum
  a_air_temperature_k :: jsnum
  a_tool_wear_min :: jsnum
  a_failure_probability :: jsnum
  a_risk_level :: string

text \<open>
  The state of the component \<^verbatim>\<open>App\<close>, and with it the bodies posted to
  \<^verbatim>\<open>/predict\<close> so far, in the order of the calls of \<^verbatim>\<open>axios.post\<close>.
\<close>

record app =
  activePage :: string
  form :: form
  result :: "prediction option"
  loading :: bool
  error :: string
  csvError :: string
  assets :: "asset list"
  posted :: "payload list"

definition initial_form :: form where
  "initial_form =
     \<lparr>uid = ''M14860'',
      air_temperature_k = Finite False 300,
      process_temperature_k = Finite False 310,
      rotational_speed_rpm = Finite False 1500,
      torque_nm = Finite False 40,
      tool_wear_min = Finite False 5,
      type = ''H''\<rparr>"

definition initial :: app where
  "initial =
     \<lparr>activePage = ''single'', form = initial_form, result = None, loading = False,
      error = [], csvError = [], assets = [], posted = []\<rparr>"

section \<open>Editing the form\<close>

text \<open>
  \<^verbatim>\<open>handleChange\<close> (lines 52 to 61): \<^verbatim>\<open>uid\<close> and \<^verbatim>\<open>type\<close> keep the text, every
  other field stores \<^verbatim>\<open>parseFloat\<close> of it. A name that is none of the seven inputs
  would add a property that nothing reads, so the seven fields stay as they are.
\<close>

definition set_text :: "string \<Rightarrow> string \<Rightarrow> form \<Rightarrow> form" where
  "set_text name v f =
     (if name = ''uid'' then f\<lparr>uid := v\<rparr> else f\<lparr>type := v\<rparr>)"

definition set_number :: "string \<Rightarrow> jsnum \<Rightarrow> form \<Rightarrow> form" where
  "set_number name v f =
     (if name = ''air_temperature_k'' then f\<lparr>air_temperature_k := v\<rparr>
      else if name = ''process_temperature_k'' then f\<lparr>process_temperature_k := v\<rparr>
      else if name = ''rotational_speed_rpm'' then f\<lparr>rotational_speed_rpm := v\<rparr>
      else if name = ''torque_nm'' then f\<lparr>torque_nm := v\<rparr>
      else if name = ''tool_wear_min'' then f\<lparr>tool_wear_min := v\<rparr>
      else f)"

definition handleChange :: "string \<Rightarrow> string \<Rightarrow> app \<Rightarrow> app" where
  "handleChange name v st =
     (if name = ''uid'' \<or> name = ''type''
      then st\<lparr>form := set_text name v (form st)\<rparr>
      else st\<lparr>form := set_number name (parseFloat v) (form st)\<rparr>)"

section \<open>Submitting a reading\<close>

text \<open>The derived features and the payload (lines 71 to 95).\<close>

definition derive_payload :: "form \<Rightarrow> payload" where
  "derive_payload f =
     (let power = js_mul (rotational_speed_rpm f) (torque_nm f);
          temperature_difference = js_sub (process_temperature_k f) (air_temperature_k f);
          power_wear = js_mul power (tool_wear_min f);
          temperature_power = js_div temperature_difference power;
          type_l = (if type f = ''L'' then 1 else 0);
          type_m = (if type f = ''M'' then 1 else 0)
      in \<lparr>p_air_temperature_k = air_temperature_k f,
          p_process_temperature_k = process_temperature_k f,
          p_rotational_speed_rpm = rotational_speed_rpm f,
          p_torque_nm = torque_nm f,
          p_tool_wear_min = tool_wear_min f,
          p_power = power,
          p_power_wear = power_wear,
          p_temperature_difference = temperature_difference,
          p_temperature_power = temperature_power,
          p_type_l = type_l,
          p_type_m = type_m,
          p_type = type f\<rparr>)"

text \<open>\<^verbatim>\<open>Array.prototype.findIndex\<close>: the first index that satisfies, or -1.\<close>

fun findIndex :: "('a \<Rightarrow> bool) \<Rightarrow> 'a list \<Rightarrow> int" where
  "findIndex P [] = - 1"
| "findIndex P (x # xs) =
     (if P x then 0
      else let i = findIndex P xs in if i = - 1 then - 1 else i + 1)"

text \<open>The updater given to \<^verbatim>\<open>setAssets\<close> (lines 104 to 125).\<close>

definition updatedAsset :: "form \<Rightarrow> prediction \<Rightarrow> asset" where
  "updatedAsset f data =
     \<lparr>a_id = uid f,
      a_type = type f,
      a_torque_nm = torque_nm f,
      a_air_temperature_k = air_temperature_k f,
      a_tool_wear_min = tool_wear_min f,
      a_failure_probability = failure_probability data,
      a_risk_level = risk_level data\<rparr>"

definition upsert :: "form \<Rightarrow> prediction \<Rightarrow> asset list \<Rightarrow> asset list" where
  "upsert f data prev =
     (let existingIndex = findIndex (\<lambda>a. a_id a = uid f) prev
      in if existingIndex \<noteq> - 1 then prev[nat existingIndex := updatedAsset f data]
         else prev @ [updatedAsset f data])"

text \<open>
  The call of \<^verbatim>\<open>axios.post\<close> either resolves with the body of a response whose
  status is a success, read as a prediction, or rejects (no response, or a status that
  is not a success).
\<close>

datatype response = Resolved prediction | Rejected

text \<open>
  \<^verbatim>\<open>handleSubmit\<close> (lines 63 to 135) runs up to the \<^verbatim>\<open>await\<close>, where the request
  leaves, and goes on when the call settles, with the form it was started with.
\<close>

definition submit_request :: "app \<Rightarrow> app" where
  "submit_request st =
     st\<lparr>loading := True, error := [], result := None,
        posted := posted st @ [derive_payload (form st)]\<rparr>"

definition submit_settled :: "form \<Rightarrow> response \<Rightarrow> app \<Rightarrow> app" where
  "submit_settled f r st =
     (case r of
        Resolved data \<Rightarrow>
          st\<lparr>result := Some data, assets := upsert f data (assets st), loading := False\<rparr>
      | Rejected \<Rightarrow>
          st\<lparr>error := ''Failed to fetch prediction. Check API connection.'',
             loading := False\<rparr>)"

definition handleSubmit :: "response \<Rightarrow> app \<Rightarrow> app" where
  "handleSubmit r st = submit_settled (form st) r (submit_request st)"

section \<open>Loading a CSV file\<close>

text \<open>
  What \<^verbatim>\<open>get\<close> (lines 165 to 169) may return: \<^verbatim>\<open>null\<close> when the header has no
  such column, \<^verbatim>\<open>undefined\<close> when the row is too short, or the text of the cell.
\<close>

datatype jsval = Null | Undefined | Str string

fun truthy :: "jsval \<Rightarrow> bool" where
  "truthy (Str s) = (s \<noteq> [])"
| "truthy v = False"

text \<open>The operator \<^verbatim>\<open>||\<close>.\<close>

definition js_or :: "jsval \<Rightarrow> jsval \<Rightarrow> jsval" where
  "js_or a b = (if truthy a then a else b)"

fun ToString :: "jsval \<Rightarrow> string" where
  "ToString Null = ''null''"
| "ToString Undefined = ''undefined''"
| "ToString (Str s) = s"

fun cons_head :: "'a \<Rightarrow> 'a list list \<Rightarrow> 'a list list" where
  "cons_head x [] = [[x]]"
| "cons_head x (p # ps) = (x # p) # ps"

text \<open>\<^verbatim>\<open>split(",")\<close>: the pieces between the separators, one piece at least.\<close>

fun split_on :: "char \<Rightarrow> string \<Rightarrow> string list" where
  "split_on c [] = [[]]"
| "split_on c (x # xs) =
     (if x = c then [] # split_on c xs else cons_head x (split_on c xs))"

text \<open>
  \<^verbatim>\<open>split(/\r?\n/)\<close>: a line feed ends a line, together with the carriage return
  right before it when there is one.
\<close>

fun split_lines :: "string \<Rightarrow> string list" where
  "split_lines [] = [[]]"
| "split_lines [x] = (if x = CHR 0x0A then [[], []] else [[x]])"
| "split_lines (x # y # r) =
     (if x = CHR 0x0D \<and> y = CHR 0x0A then [] # split_lines r
      else if x = CHR 0x0A then [] # split_lines (y # r)
      else cons_head x (split_lines (y # r)))"

text \<open>
  \<^verbatim>\<open>replace(/^"|"$/g, "")\<close>: a double quote at the start is removed, and one at the
  end of what is left.
\<close>

definition strip_quotes :: "string \<Rightarrow> string" where
  "strip_quotes s =
     (let s1 = (case s of [] \<Rightarrow> [] | c # r \<Rightarrow> if c = CHR 0x22 then r else s)
      in if s1 \<noteq> [] \<and> last s1 = CHR 0x22 then butlast s1 else s1)"

definition cells :: "string \<Rightarrow> string list" where
  "cells line = map (\<lambda>h. strip_quotes (trim h)) (split_on CHR '','' line)"

definition indexOf :: "'a \<Rightarrow> 'a list \<Rightarrow> int" where
  "indexOf x xs = findIndex (\<lambda>y. y = x) xs"

definition get :: "string list \<Rightarrow> string list \<Rightarrow> string \<Rightarrow> jsval" where
  "get header row colName =
     (let idx = indexOf colName header
      in if idx = - 1 then Null
         else if nat idx < length row then Str (row ! nat idx) else Undefined)"

text \<open>What a truthy value of \<^verbatim>\<open>get\<close> holds: its text.\<close>

fun text_of :: "jsval \<Rightarrow> string" where
  "text_of (Str s) = s"
| "text_of v = []"

definition columns_message :: string where
  "columns_message =
     ''Could not map CSV columns. Make sure it contains UDI, Air temperature [K], ''
     @ ''Process temperature [K], Rotational speed [rpm], Torque [Nm], Tool wear [min], Type.''"

text \<open>The handler \<^verbatim>\<open>reader.onload\<close> (lines 144 to 211), given the text of the file.\<close>

definition onload :: "string \<Rightarrow> app \<Rightarrow> app" where
  "onload text st =
     (let lines = split_lines (trim text)
      in if length lines < 2
         then st\<lparr>csvError := ''CSV must contain a header and at least one data row.''\<rparr>
         else
           let header = cells (lines ! 0);
               row = cells (lines ! 1);
               uid = js_or (js_or (get header row ''UDI'') (get header row ''uid''))
                       (get header row ''UID'');
               airTemp = parseFloat (ToString (get header row ''Air temperature [K]''));
               procTemp = parseFloat (ToString (get header row ''Process temperature [K]''));
               rpm = parseFloat (ToString (get header row ''Rotational speed [rpm]''));
               torque = parseFloat (ToString (get header row ''Torque [Nm]''));
               wear = parseFloat (ToString (get header row ''Tool wear [min]''));
               typeRaw = trim (ToString (js_or (get header row ''Type'') (Str ''H'')))
           in if \<not> truthy uid \<or> isNaN airTemp \<or> isNaN procTemp \<or> isNaN rpm
                 \<or> isNaN torque \<or> isNaN wear
              then st\<lparr>csvError := columns_message\<rparr>
              else
                let type = (if typeRaw \<in> set [''L'', ''M'', ''H''] then typeRaw else ''H'')
                in st\<lparr>form := (form st)
                        \<lparr>uid := text_of uid,
                         air_temperature_k := airTemp,
                         process_temperature_k := procTemp,
                         rotational_speed_rpm := rpm,
                         torque_nm := torque,
                         tool_wear_min := wear,
                         type := type\<rparr>\<rparr>)"

text \<open>
  What the file input delivers: no file, or a file whose reading ends in a text, in a
  result that is not a text, or in an error.
\<close>

datatype reading = ReadText string | ReadOther | ReadError

text \<open>\<^verbatim>\<open>handleCsvUpload\<close> (lines 137 to 218).\<close>

definition handleCsvUpload :: "reading option \<Rightarrow> app \<Rightarrow> app" where
  "handleCsvUpload file st =
     (case file of
        None \<Rightarrow> st
      | Some r \<Rightarrow>
          (let st1 = st\<lparr>csvError := []\<rparr>
           in case r of
                ReadText text \<Rightarrow> onload text st1
              | ReadOther \<Rightarrow> st1\<lparr>csvError := ''Unable to read CSV file.''\<rparr>
              | ReadError \<Rightarrow> st1\<lparr>csvError := ''Error reading CSV file.''\<rparr>))"

section \<open>The views\<close>

text \<open>The table \<^verbatim>\<open>RISK_ORDER\<close> (line 26); \<open>None\<close> is a key it does not hold.\<close>

definition RISK_ORDER :: "string \<Rightarrow> int option" where
  "RISK_ORDER k =
     (if k = ''Red'' then Some 3
      else if k = ''Yellow'' then Some 2
      else if k = ''Green'' then Some 1
      else None)"

text \<open>
  The comparator of line 413. With a risk level that is no key of the table the
  difference is \<open>NaN\<close>, which \<^verbatim>\<open>sort\<close> reads as zero.
\<close>

definition compare_risk :: "asset \<Rightarrow> asset \<Rightarrow> int" where
  "compare_risk a b =
     (case (RISK_ORDER (a_risk_level b), RISK_ORDER (a_risk_level a)) of
        (Some x, Some y) \<Rightarrow> x - y
      | _ \<Rightarrow> 0)"

text \<open>
  \<^verbatim>\<open>Array.prototype.sort\<close> is stable: with a consistent comparator its result is
  the one of the insertion below, which puts an element before the later ones it does
  not exceed. With a risk level that is no key of the table the comparator is not
  consistent, and the order an engine gives may differ from this one.
\<close>

fun insert_by :: "('a \<Rightarrow> 'a \<Rightarrow> int) \<Rightarrow> 'a \<Rightarrow> 'a list \<Rightarrow> 'a list" where
  "insert_by cmp x [] = [x]"
| "insert_by cmp x (y # ys) =
     (if cmp x y \<le> 0 then x # y # ys else y # insert_by cmp x ys)"

definition sort_by :: "('a \<Rightarrow> 'a \<Rightarrow> int) \<Rightarrow> 'a list \<Rightarrow> 'a list" where
  "sort_by cmp xs = foldr (insert_by cmp) xs []"

text \<open>
  \<^verbatim>\<open>DetailedTableView\<close> (lines 402 to 414): \<open>None\<close> is the notice shown for an empty
  registry, otherwise the rows of the table in their order.
\<close>

definition DetailedTableView :: "asset list \<Rightarrow> asset list option" where
  "DetailedTableView as =
     (if length as = 0 then None else Some (sort_by compare_risk as))"

text \<open>
  The reducer of lines 346 to 352 and the object it starts from. A risk level that
  names a property every object inherits would store another value under that name;
  no bucket reads it.
\<close>

definition count_step :: "(string \<rightharpoonup> nat) \<Rightarrow> asset \<Rightarrow> (string \<rightharpoonup> nat)" where
  "count_step acc a =
     acc(a_risk_level a \<mapsto> (case acc (a_risk_level a) of None \<Rightarrow> 0 | Some n \<Rightarrow> n) + 1)"

definition counts_init :: "string \<rightharpoonup> nat" where
  "counts_init = [''Green'' \<mapsto> 0, ''Yellow'' \<mapsto> 0, ''Red'' \<mapsto> 0]"

record bucket =
  name :: string
  risk :: string
  count :: "nat option"

text \<open>
  \<^verbatim>\<open>HealthSummaryView\<close> (lines 336 to 358): \<open>None\<close> is the notice shown for an empty
  registry, otherwise the data of the bar chart.
\<close>

definition HealthSummaryView :: "asset list \<Rightarrow> bucket list option" where
  "HealthSummaryView as =
     (if length as = 0 then None
      else
        let counts = foldl count_step counts_init as
        in Some
             [\<lparr>name = ''Healthy'', risk = ''Green'', count = counts ''Green''\<rparr>,
              \<lparr>name = ''Monitoring Required'', risk = ''Yellow'', count = counts ''Yellow''\<rparr>,
              \<lparr>name = ''Critical'', risk = ''Red'', count = counts ''Red''\<rparr>])"

section \<open>Runs of the application\<close>

text \<open>
  The events that change the state: a tab is chosen, an input of the form changes, a
  file is chosen and read, the form is submitted, and a pending call settles for a
  submission started with some form.
\<close>

datatype event =
    Navigate string
  | Change string string
  | CsvUpload "reading option"
  | SubmitRequest
  | SubmitSettled form response

fun step :: "app \<Rightarrow> event \<Rightarrow> app" where
  "step st (Navigate p) = st\<lparr>activePage := p\<rparr>"
| "step st (Change n v) = handleChange n v st"
| "step st (CsvUpload file) = handleCsvUpload file st"
| "step st SubmitRequest = submit_request st"
| "step st (SubmitSettled f r) = submit_settled f r st"

definition run :: "event list \<Rightarrow> app" where
  "run evs = foldl step initial evs"

section \<open>Notions of the properties\<close>

text \<open>The severity rank of an asset: Red is 3, Yellow is 2, Green is 1.\<close>

definition severity :: "asset \<Rightarrow> int" where
  "severity a = (case RISK_ORDER (a_risk_level a) of None \<Rightarrow> 0 | Some n \<Rightarrow> n)"

text \<open>The largest finite number, \<open>(2^53 - 1) * 2^971\<close>.\<close>

definition max_double :: rat where
  "max_double = (2 ^ 53 - 1) * 2 ^ 971"

text \<open>
  What the handler of a loaded file reads from a text: its lines, the header, a cell of
  the first data row by the label of its column, the number and the id read there,
  the machine type, whether the checks of lines 180 to 187 pass, and the form that a
  text passing them leaves.
\<close>

definition csv_lines :: "string \<Rightarrow> string list" where
  "csv_lines t = split_lines (trim t)"

definition csv_header :: "string \<Rightarrow> string list" where
  "csv_header t = cells (csv_lines t ! 0)"

definition csv_get :: "string \<Rightarrow> string \<Rightarrow> jsval" where
  "csv_get t c = get (csv_header t) (cells (csv_lines t ! 1)) c"

definition csv_number :: "string \<Rightarrow> string \<Rightarrow> jsnum" where
  "csv_number t c = parseFloat (ToString (csv_get t c))"

definition csv_uid :: "string \<Rightarrow> jsval" where
  "csv_uid t = js_or (js_or (csv_get t ''UDI'') (csv_get t ''uid'')) (csv_get t ''UID'')"

definition csv_type :: "string \<Rightarrow> string" where
  "csv_type t = trim (ToString (js_or (csv_get t ''Type'') (Str ''H'')))"

definition numeric_columns :: "string list" where
  "numeric_columns =
     [''Air temperature [K]'', ''Process temperature [K]'', ''Rotational speed [rpm]'',
      ''Torque [Nm]'', ''Tool wear [min]'']"

definition passes_validation :: "string \<Rightarrow> bool" where
  "passes_validation t =
     (2 \<le> length (csv_lines t) \<and> truthy (csv_uid t) \<and>
      \<not> isNaN (csv_number t ''Air temperature [K]'') \<and>
      \<not> isNaN (csv_number t ''Process temperature [K]'') \<and>
      \<not> isNaN (csv_number t ''Rotational speed [rpm]'') \<and>
      \<not> isNaN (csv_number t ''Torque [Nm]'') \<and>
      \<not> isNaN (csv_number t ''Tool wear [min]''))"

definition csv_form :: "string \<Rightarrow> form \<Rightarrow> form" where
  "csv_form t f =
     f\<lparr>uid := text_of (csv_uid t),
       air_temperature_k := csv_number t ''Air temperature [K]'',
       process_temperature_k := csv_number t ''Process temperature [K]'',
       rotational_speed_rpm := csv_number t ''Rotational speed [rpm]'',
       torque_nm := csv_number t ''Torque [Nm]'',
       tool_wear_min := csv_number t ''Tool wear [min]'',
       type := (if csv_type t \<in> {''H'', ''L'', ''M''} then csv_type t else ''H'')\<rparr>"




text \<open>Sample data: a reading of a machine, a scoring result, and the asset they make.\<close>

definition reading :: "string \<Rightarrow> form" where
  "reading u = initial_form\<lparr>uid := u\<rparr>"

definition scored :: "string \<Rightarrow> prediction" where
  "scored lvl =
     \<lparr>failure_probability =
        (if lvl = ''Red'' then Finite False (3 / 4)
         else if lvl = ''Yellow'' then Finite False (1 / 4)
         else Finite False 0),
      risk_level = lvl\<rparr>"

definition machine :: "string \<Rightarrow> string \<Rightarrow> asset" where
  "machine u lvl = updatedAsset (reading u) (scored lvl)"

text \<open>
  Sample files: a complete one, one without the column of the torque, one without the
  column of the type, and one whose type is none of H, L, M.
\<close>

definition sample_csv_full :: string where
  "sample_csv_full =
     ''UDI,Product ID,Type,Air temperature [K],Process temperature [K],''
     @ ''Rotational speed [rpm],Torque [Nm],Tool wear [min]'' @ [CHR 0x0D, CHR 0x0A]
     @ ''1,M14860,M,298.1,308.6,1551,42.8,0'' @ [CHR 0x0A]"

definition sample_csv_no_torque :: string where
  "sample_csv_no_torque =
     ''UDI,Type,Air temperature [K],Process temperature [K],Rotational speed [rpm],''
     @ ''Tool wear [min]'' @ [CHR 0x0A] @ ''1,M,298.1,308.6,1551,0''"

definition sample_csv_no_type :: string where
  "sample_csv_no_type =
     ''UDI,Air temperature [K],Process temperature [K],Rotational speed [rpm],''
     @ ''Torque [Nm],Tool wear [min]'' @ [CHR 0x0A] @ ''1,298.1,308.6,1551,42.8,0''"

definition sample_csv_odd_type :: string where
  "sample_csv_odd_type =
     ''uid,Type,Air temperature [K],Process temperature [K],Rotational speed [rpm],''
     @ ''Torque [Nm],Tool wear [min]'' @ [CHR 0x0A] @ ''M7,X,298.1,308.6,1551,42.8,0''"

section \<open>The registry\<close>

lemma findIndex_none: "(\<forall>x\<in>set xs. \<not> P x) \<Longrightarrow> findIndex P xs = - 1"
  by (induction xs) auto

lemma findIndex_ge: "- 1 \<le> findIndex P xs"
  by (induction xs) (auto simp: Let_def)

lemma findIndex_first:
  "(\<forall>x\<in>set xs. \<not> P x) \<Longrightarrow> P b \<Longrightarrow> findIndex P (xs @ b # ys) = int (length xs)"
  by (induction xs) (auto simp: Let_def)

lemma findIndex_found:
  "findIndex P xs \<noteq> - 1 \<Longrightarrow> nat (findIndex P xs) < length xs \<and> P (xs ! nat (findIndex P xs))"
proof (induction xs)
  case Nil
  then show ?case by simp
next
  case (Cons x xs)
  show ?case
  proof (cases "P x")
    case True
    then show ?thesis by simp
  next
    case False
    with Cons.prems have ne: "findIndex P xs \<noteq> - 1"
      by (auto simp: Let_def split: if_splits)
    have ge: "0 \<le> findIndex P xs"
      using findIndex_ge [of P xs] ne by linarith
    from Cons.IH [OF ne] False ne ge show ?thesis
      by (simp add: Let_def nat_add_distrib)
  qed
qed

lemma findIndex_missing: "findIndex P xs = - 1 \<Longrightarrow> \<forall>x\<in>set xs. \<not> P x"
proof (induction xs)
  case Nil
  then show ?case by simp
next
  case (Cons x xs)
  from Cons.prems have nx: "\<not> P x"
    by (auto split: if_splits)
  with Cons.prems findIndex_ge [of P xs] have "findIndex P xs = - 1"
    by (auto simp: Let_def split: if_splits)
  with Cons.IH nx show ?case by simp
qed

lemma upsert_absent:
  "(\<forall>a\<in>set prev. a_id a \<noteq> uid f) \<Longrightarrow> upsert f data prev = prev @ [updatedAsset f data]"
  by (simp add: upsert_def findIndex_none)

lemma upsert_present:
  "(\<forall>a\<in>set xs. a_id a \<noteq> uid f) \<Longrightarrow> a_id b = uid f \<Longrightarrow>
   upsert f data (xs @ b # ys) = xs @ updatedAsset f data # ys"
  by (simp add: upsert_def findIndex_first)

lemma a_id_updatedAsset: "a_id (updatedAsset f data) = uid f"
  by (simp add: updatedAsset_def)

lemma upsert_distinct:
  assumes "distinct (map a_id prev)"
  shows "distinct (map a_id (upsert f data prev))"
proof (cases "findIndex (\<lambda>a. a_id a = uid f) prev = - 1")
  case True
  from findIndex_missing [OF True] have "uid f \<notin> a_id ` set prev" by auto
  with assms True show ?thesis
    by (simp add: upsert_def a_id_updatedAsset)
next
  case False
  let ?i = "nat (findIndex (\<lambda>a. a_id a = uid f) prev)"
  from findIndex_found [OF False]
  have i: "?i < length prev" and at: "a_id (prev ! ?i) = uid f" by auto
  have "map a_id (prev[?i := updatedAsset f data]) = (map a_id prev)[?i := uid f]"
    by (simp add: map_update a_id_updatedAsset)
  also have "\<dots> = map a_id prev"
    using i at by (simp add: list_update_same_conv)
  finally show ?thesis using assms False
    by (simp add: upsert_def)
qed

lemma assets_handleChange: "assets (handleChange n v st) = assets st"
  by (simp add: handleChange_def)

lemma assets_onload: "assets (onload t st) = assets st"
  by (simp add: onload_def Let_def)

lemma assets_handleCsvUpload: "assets (handleCsvUpload file st) = assets st"
  by (simp add: handleCsvUpload_def assets_onload Let_def split: option.splits reading.splits)

lemma assets_submit_request: "assets (submit_request st) = assets st"
  by (simp add: submit_request_def)

lemma step_distinct:
  "distinct (map a_id (assets st)) \<Longrightarrow> distinct (map a_id (assets (step st e)))"
  by (cases e)
     (auto simp: assets_handleChange assets_handleCsvUpload assets_submit_request
        submit_settled_def upsert_distinct split: response.splits)

lemma foldl_step_distinct:
  "distinct (map a_id (assets st)) \<Longrightarrow> distinct (map a_id (assets (foldl step st evs)))"
  by (induction evs arbitrary: st) (simp_all add: step_distinct)

text \<open>
  Claim C1. When a prediction succeeds, the registry keeps its order: with no asset of
  the reading's id the new asset is appended at the end, and otherwise the first asset
  with that id is replaced where it stands, everything before and after it unchanged.
  The asset stored is made of the submitted form and the response alone: the id, type,
  torque, air temperature and tool wear of the form, the probability and the risk
  level of the response, nothing of the asset it replaces.
\<close>

theorem upsert_keeps_order:
  "((\<forall>a\<in>set (assets st). a_id a \<noteq> uid f) \<longrightarrow>
      assets (submit_settled f (Resolved data) st) =
        assets st @
          [\<lparr>a_id = uid f, a_type = type f, a_torque_nm = torque_nm f,
            a_air_temperature_k = air_temperature_k f, a_tool_wear_min = tool_wear_min f,
            a_failure_probability = failure_probability data,
            a_risk_level = risk_level data\<rparr>]) \<and>
   (\<forall>xs b ys. assets st = xs @ b # ys \<and> a_id b = uid f \<and> (\<forall>a\<in>set xs. a_id a \<noteq> uid f) \<longrightarrow>
      assets (submit_settled f (Resolved data) st) =
        xs @
          \<lparr>a_id = uid f, a_type = type f, a_torque_nm = torque_nm f,
           a_air_temperature_k = air_temperature_k f, a_tool_wear_min = tool_wear_min f,
           a_failure_probability = failure_probability data,
           a_risk_level = risk_level data\<rparr> # ys) \<and>
   assets (handleSubmit (Resolved data) st)
     = assets (submit_settled (form st) (Resolved data) st)"
proof -
  have new: "updatedAsset f data =
      \<lparr>a_id = uid f, a_type = type f, a_torque_nm = torque_nm f,
       a_air_temperature_k = air_temperature_k f, a_tool_wear_min = tool_wear_min f,
       a_failure_probability = failure_probability data,
       a_risk_level = risk_level data\<rparr>"
    by (simp add: updatedAsset_def)
  have whole: "assets (handleSubmit (Resolved data) st)
                 = assets (submit_settled (form st) (Resolved data) st)"
    by (simp add: handleSubmit_def submit_settled_def submit_request_def)
  show ?thesis
    unfolding new [symmetric]
    using whole by (simp add: submit_settled_def upsert_absent upsert_present)
qed

theorem upsert_keeps_order_witness:
  "assets (submit_settled
      \<lparr>uid = ''B'', air_temperature_k = Finite False 298,
       process_temperature_k = Finite False 309, rotational_speed_rpm = Finite False 1400,
       torque_nm = Finite False 55, tool_wear_min = Finite False 120, type = ''L''\<rparr>
      (Resolved \<lparr>failure_probability = Finite False (3 / 4), risk_level = ''Red''\<rparr>)
      initial)
     = [\<lparr>a_id = ''B'', a_type = ''L'', a_torque_nm = Finite False 55,
         a_air_temperature_k = Finite False 298, a_tool_wear_min = Finite False 120,
         a_failure_probability = Finite False (3 / 4), a_risk_level = ''Red''\<rparr>] \<and>
   assets (submit_settled
      \<lparr>uid = ''B'', air_temperature_k = Finite False 298,
       process_temperature_k = Finite False 309, rotational_speed_rpm = Finite False 1400,
       torque_nm = Finite False 55, tool_wear_min = Finite False 120, type = ''L''\<rparr>
      (Resolved \<lparr>failure_probability = Finite False (3 / 4), risk_level = ''Red''\<rparr>)
      (initial\<lparr>assets :=
         [\<lparr>a_id = ''A'', a_type = ''H'', a_torque_nm = Finite False 40,
           a_air_temperature_k = Finite False 300, a_tool_wear_min = Finite False 5,
           a_failure_probability = Finite False 0, a_risk_level = ''Green''\<rparr>,
          \<lparr>a_id = ''B'', a_type = ''M'', a_torque_nm = Finite False 42,
           a_air_temperature_k = Finite False 301, a_tool_wear_min = Finite False 7,
           a_failure_probability = Finite False (1 / 4), a_risk_level = ''Yellow''\<rparr>,
          \<lparr>a_id = ''C'', a_type = ''H'', a_torque_nm = Finite False 40,
           a_air_temperature_k = Finite False 300, a_tool_wear_min = Finite False 5,
           a_failure_probability = Finite False 0, a_risk_level = ''Green''\<rparr>]\<rparr>))
     = [\<lparr>a_id = ''A'', a_type = ''H'', a_torque_nm = Finite False 40,
         a_air_temperature_k = Finite False 300, a_tool_wear_min = Finite False 5,
         a_failure_probability = Finite False 0, a_risk_level = ''Green''\<rparr>,
        \<lparr>a_id = ''B'', a_type = ''L'', a_torque_nm = Finite False 55,
         a_air_temperature_k = Finite False 298, a_tool_wear_min = Finite False 120,
         a_failure_probability = Finite False (3 / 4), a_risk_level = ''Red''\<rparr>,
        \<lparr>a_id = ''C'', a_type = ''H'', a_torque_nm = Finite False 40,
         a_air_temperature_k = Finite False 300, a_tool_wear_min = Finite False 5,
         a_failure_probability = Finite False 0, a_risk_level = ''Green''\<rparr>]"
proof -
  let ?f = "\<lparr>uid = ''B'', air_temperature_k = Finite False 298,
       process_temperature_k = Finite False 309, rotational_speed_rpm = Finite False 1400,
       torque_nm = Finite False 55, tool_wear_min = Finite False 120, type = ''L''\<rparr>"
  let ?d = "\<lparr>failure_probability = Finite False (3 / 4), risk_level = ''Red''\<rparr>"
  let ?a = "\<lparr>a_id = ''A'', a_type = ''H'', a_torque_nm = Finite False 40,
           a_air_temperature_k = Finite False 300, a_tool_wear_min = Finite False 5,
           a_failure_probability = Finite False 0, a_risk_level = ''Green''\<rparr>"
  let ?b = "\<lparr>a_id = ''B'', a_type = ''M'', a_torque_nm = Finite False 42,
           a_air_temperature_k = Finite False 301, a_tool_wear_min = Finite False 7,
           a_failure_probability = Finite False (1 / 4), a_risk_level = ''Yellow''\<rparr>"
  let ?c = "\<lparr>a_id = ''C'', a_type = ''H'', a_torque_nm = Finite False 40,
           a_air_temperature_k = Finite False 300, a_tool_wear_min = Finite False 5,
           a_failure_probability = Finite False 0, a_risk_level = ''Green''\<rparr>"
  let ?new = "\<lparr>a_id = uid ?f, a_type = type ?f, a_torque_nm = torque_nm ?f,
           a_air_temperature_k = air_temperature_k ?f, a_tool_wear_min = tool_wear_min ?f,
           a_failure_probability = failure_probability ?d,
           a_risk_level = risk_level ?d\<rparr>"
  let ?st = "initial\<lparr>assets := [?a, ?b, ?c]\<rparr>"
  have absent: "\<forall>a\<in>set (assets initial). a_id a \<noteq> uid ?f"
    by (simp add: initial_def)
  have first: "assets (submit_settled ?f (Resolved ?d) initial) = assets initial @ [?new]"
    using upsert_keeps_order [of initial ?f ?d] absent by blast
  have split: "assets ?st = [?a] @ ?b # [?c]"
    by simp
  have same: "a_id ?b = uid ?f"
    by simp
  have before: "\<forall>a\<in>set [?a]. a_id a \<noteq> uid ?f"
    by simp
  have second: "assets (submit_settled ?f (Resolved ?d) ?st) = [?a] @ ?new # [?c]"
    using upsert_keeps_order [of ?st ?f ?d] split same before by blast
  from first second show ?thesis
    by (simp add: initial_def)
qed

text \<open>
  Claim C2. After any run from the initial state, whatever the events and the order in
  which the pending calls settle, no two assets of the registry have the same id.
\<close>

theorem registry_ids_distinct: "distinct (map a_id (assets (run evs)))"
  unfolding run_def by (rule foldl_step_distinct) (simp add: initial_def)

theorem registry_ids_distinct_witness:
  "distinct (map a_id (assets (run
     [SubmitRequest, SubmitSettled (reading ''A'') (Resolved (scored ''Green'')),
      Change ''uid'' ''B'', SubmitRequest,
      SubmitSettled (reading ''B'') (Resolved (scored ''Red'')),
      SubmitSettled (reading ''A'') (Resolved (scored ''Yellow''))])))"
  by (rule registry_ids_distinct)

text \<open>
  Claim C7. A submission whose call is rejected posts its payload once, sets the one
  fixed error message, clears the result and the loading flag, and changes nothing
  else: the registry is the one from before the submission, also when the call
  settles after other events.
\<close>

theorem rejected_submission:
  "handleSubmit Rejected st =
     st\<lparr>error := ''Failed to fetch prediction. Check API connection.'', result := None,
        loading := False, posted := posted st @ [derive_payload (form st)]\<rparr> \<and>
   assets (handleSubmit Rejected st) = assets st \<and>
   assets (submit_settled f Rejected st) = assets st"
  by (simp add: handleSubmit_def submit_settled_def submit_request_def)

theorem rejected_submission_witness:
  "handleSubmit Rejected (initial\<lparr>assets := [machine ''A'' ''Green'']\<rparr>) =
     initial\<lparr>assets := [machine ''A'' ''Green''],
             error := ''Failed to fetch prediction. Check API connection.'',
             posted := [derive_payload initial_form]\<rparr>"
  using rejected_submission [of "initial\<lparr>assets := [machine ''A'' ''Green'']\<rparr>" initial_form]
  by (simp add: initial_def)

section \<open>The views\<close>

lemma compare_risk_known:
  "a_risk_level a \<in> {''Green'', ''Yellow'', ''Red''} \<Longrightarrow>
   a_risk_level b \<in> {''Green'', ''Yellow'', ''Red''} \<Longrightarrow> compare_risk a b = severity b - severity a"
  by (auto simp: compare_risk_def severity_def RISK_ORDER_def)

lemma mset_insert_by: "mset (insert_by cmp x xs) = add_mset x (mset xs)"
  by (induction xs) auto

lemma mset_sort_by: "mset (sort_by cmp xs) = mset xs"
  unfolding sort_by_def by (induction xs) (auto simp: mset_insert_by)

lemma set_insert_by: "set (insert_by cmp x xs) = insert x (set xs)"
  by (induction xs) auto

lemma set_sort_by: "set (sort_by cmp xs) = set xs"
  unfolding sort_by_def by (induction xs) (auto simp: set_insert_by)

lemma sorted_insert_by:
  assumes "\<forall>y\<in>set xs. cmp x y = key y - key x"
    and "sorted_wrt (\<lambda>a b. key b \<le> key a) xs"
  shows "sorted_wrt (\<lambda>a b. key b \<le> (key a :: int)) (insert_by cmp x xs)"
  using assms
proof (induction xs)
  case Nil
  then show ?case by simp
next
  case (Cons y ys)
  then show ?case
    by (auto simp: set_insert_by)
qed

lemma filter_insert_by_other:
  "\<not> P x \<Longrightarrow> filter P (insert_by cmp x xs) = filter P xs"
  by (induction xs) auto

lemma filter_insert_by_same:
  assumes "\<forall>y\<in>set xs. cmp x y = key y - key x"
    and "sorted_wrt (\<lambda>a b. key b \<le> key a) xs"
  shows "filter (\<lambda>a. key a = (key x :: int)) (insert_by cmp x xs)
         = x # filter (\<lambda>a. key a = key x) xs"
  using assms
  by (induction xs) auto

lemma sort_by_sorted:
  assumes "\<forall>x\<in>set xs. \<forall>y\<in>set xs. cmp x y = key y - key x"
  shows "sorted_wrt (\<lambda>a b. key b \<le> (key a :: int)) (sort_by cmp xs)"
  using assms
proof (induction xs)
  case Nil
  then show ?case by (simp add: sort_by_def)
next
  case (Cons x xs)
  have tail: "sorted_wrt (\<lambda>a b. key b \<le> key a) (sort_by cmp xs)"
    using Cons by simp
  have agree: "\<forall>y\<in>set (sort_by cmp xs). cmp x y = key y - key x"
    using Cons.prems by (simp add: set_sort_by)
  have "sort_by cmp (x # xs) = insert_by cmp x (sort_by cmp xs)"
    by (simp add: sort_by_def)
  with sorted_insert_by [where key = key and cmp = cmp and x = x, OF agree tail]
  show ?case by simp
qed

lemma sort_by_stable:
  assumes "\<forall>x\<in>set xs. \<forall>y\<in>set xs. cmp x y = key y - key x"
  shows "filter (\<lambda>a. key a = (r :: int)) (sort_by cmp xs) = filter (\<lambda>a. key a = r) xs"
  using assms
proof (induction xs)
  case Nil
  then show ?case by (simp add: sort_by_def)
next
  case (Cons x xs)
  have IH: "filter (\<lambda>a. key a = r) (sort_by cmp xs) = filter (\<lambda>a. key a = r) xs"
    using Cons by simp
  have tail: "sorted_wrt (\<lambda>a b. key b \<le> key a) (sort_by cmp xs)"
    using Cons.prems by (intro sort_by_sorted) simp
  have agree: "\<forall>y\<in>set (sort_by cmp xs). cmp x y = key y - key x"
    using Cons.prems by (simp add: set_sort_by)
  have unfold: "sort_by cmp (x # xs) = insert_by cmp x (sort_by cmp xs)"
    by (simp add: sort_by_def)
  show ?case
  proof (cases "key x = r")
    case True
    with filter_insert_by_same [where key = key and cmp = cmp and x = x, OF agree tail] IH unfold
    show ?thesis by simp
  next
    case False
    with IH unfold show ?thesis by (simp add: filter_insert_by_other)
  qed
qed

text \<open>
  Claim C3. When every asset has one of the three risk levels, the table shows the
  notice only for the empty registry, and otherwise all the assets (the same multiset),
  in descending severity, the assets of each severity in the order they have in the
  registry.
\<close>

theorem table_sorted_stable:
  assumes "\<forall>a\<in>set as. a_risk_level a \<in> {''Green'', ''Yellow'', ''Red''}"
  shows "RISK_ORDER ''Red'' = Some 3 \<and> RISK_ORDER ''Yellow'' = Some 2 \<and>
         RISK_ORDER ''Green'' = Some 1 \<and>
         (case DetailedTableView as of
            None \<Rightarrow> as = []
          | Some rows \<Rightarrow>
              mset rows = mset as \<and>
              sorted_wrt (\<lambda>a b. severity b \<le> severity a) rows \<and>
              (\<forall>r. filter (\<lambda>a. severity a = r) rows = filter (\<lambda>a. severity a = r) as))"
proof -
  have ranks: "RISK_ORDER ''Red'' = Some 3 \<and> RISK_ORDER ''Yellow'' = Some 2 \<and>
               RISK_ORDER ''Green'' = Some 1"
    by (simp add: RISK_ORDER_def)
  have agree: "\<forall>x\<in>set as. \<forall>y\<in>set as. compare_risk x y = severity y - severity x"
    using assms by (simp add: compare_risk_known)
  show ?thesis
    using ranks sort_by_sorted [where key = severity and cmp = compare_risk, OF agree]
      sort_by_stable [where key = severity and cmp = compare_risk, OF agree]
    by (simp add: DetailedTableView_def mset_sort_by)
qed

theorem table_sorted_stable_witness:
  "DetailedTableView
     [machine ''A'' ''Green'', machine ''B'' ''Red'', machine ''C'' ''Yellow'', machine ''D'' ''Red'']
   = Some [machine ''B'' ''Red'', machine ''D'' ''Red'', machine ''C'' ''Yellow'',
           machine ''A'' ''Green'']"
proof -
  let ?as = "[machine ''A'' ''Green'', machine ''B'' ''Red'', machine ''C'' ''Yellow'',
              machine ''D'' ''Red'']"
  have lv: "\<forall>a\<in>set ?as. a_risk_level a \<in> {''Green'', ''Yellow'', ''Red''}"
    by (simp add: machine_def updatedAsset_def scored_def)
  from table_sorted_stable [OF lv] show ?thesis
    by (simp add: DetailedTableView_def sort_by_def compare_risk_def RISK_ORDER_def
        machine_def updatedAsset_def scored_def)
qed

lemma foldl_count_step:
  "foldl count_step acc as k =
     (if k \<in> dom acc \<or> k \<in> a_risk_level ` set as
      then Some ((case acc k of None \<Rightarrow> 0 | Some n \<Rightarrow> n)
                 + length (filter (\<lambda>a. a_risk_level a = k) as))
      else None)"
proof (induction as arbitrary: acc)
  case Nil
  then show ?case by (auto split: option.splits)
next
  case (Cons a as)
  show ?case
    by (simp add: Cons.IH) (auto simp: count_step_def split: option.splits)
qed

lemma three_way_length:
  "\<forall>a\<in>set as. a_risk_level a \<in> {''Green'', ''Yellow'', ''Red''} \<Longrightarrow>
   length (filter (\<lambda>a. a_risk_level a = ''Green'') as)
   + length (filter (\<lambda>a. a_risk_level a = ''Yellow'') as)
   + length (filter (\<lambda>a. a_risk_level a = ''Red'') as) = length as"
  by (induction as) auto

text \<open>
  Claim C4, amended. For a registry that is not empty, the summary is the three buckets
  Green, Yellow, Red in this order, each with the number of assets of its risk level,
  a bucket without members with the count 0; when every asset has one of the three
  risk levels, the counts add up to the size of the registry.
\<close>

theorem health_summary_buckets:
  assumes "\<forall>a\<in>set as. a_risk_level a \<in> {''Green'', ''Yellow'', ''Red''}" and "as \<noteq> []"
  shows "HealthSummaryView as =
           Some [\<lparr>name = ''Healthy'', risk = ''Green'',
                   count = Some (length (filter (\<lambda>a. a_risk_level a = ''Green'') as))\<rparr>,
                 \<lparr>name = ''Monitoring Required'', risk = ''Yellow'',
                   count = Some (length (filter (\<lambda>a. a_risk_level a = ''Yellow'') as))\<rparr>,
                 \<lparr>name = ''Critical'', risk = ''Red'',
                   count = Some (length (filter (\<lambda>a. a_risk_level a = ''Red'') as))\<rparr>]
         \<and> length (filter (\<lambda>a. a_risk_level a = ''Green'') as)
           + length (filter (\<lambda>a. a_risk_level a = ''Yellow'') as)
           + length (filter (\<lambda>a. a_risk_level a = ''Red'') as) = length as"
proof -
  have g: "foldl count_step counts_init as ''Green''
             = Some (length (filter (\<lambda>a. a_risk_level a = ''Green'') as))"
    by (simp add: foldl_count_step counts_init_def)
  have y: "foldl count_step counts_init as ''Yellow''
             = Some (length (filter (\<lambda>a. a_risk_level a = ''Yellow'') as))"
    by (simp add: foldl_count_step counts_init_def)
  have r: "foldl count_step counts_init as ''Red''
             = Some (length (filter (\<lambda>a. a_risk_level a = ''Red'') as))"
    by (simp add: foldl_count_step counts_init_def)
  from assms(2) g y r three_way_length [OF assms(1)] show ?thesis
    by (simp add: HealthSummaryView_def Let_def)
qed

theorem health_summary_buckets_witness:
  "HealthSummaryView [machine ''A'' ''Green'', machine ''B'' ''Red'', machine ''C'' ''Green''] =
     Some [\<lparr>name = ''Healthy'', risk = ''Green'', count = Some 2\<rparr>,
           \<lparr>name = ''Monitoring Required'', risk = ''Yellow'', count = Some 0\<rparr>,
           \<lparr>name = ''Critical'', risk = ''Red'', count = Some 1\<rparr>]"
proof -
  let ?as = "[machine ''A'' ''Green'', machine ''B'' ''Red'', machine ''C'' ''Green'']"
  have lv: "\<forall>a\<in>set ?as. a_risk_level a \<in> {''Green'', ''Yellow'', ''Red''}"
    by (simp add: machine_def updatedAsset_def scored_def)
  have ne: "?as \<noteq> []" by simp
  from health_summary_buckets [OF lv ne] show ?thesis
    by (simp add: machine_def updatedAsset_def scored_def)
qed

text \<open>
  Claim C4 as it is written fails: for the empty registry the view is the notice, with
  no bucket at all.
\<close>

theorem health_summary_empty: "HealthSummaryView [] = None"
  by (simp add: HealthSummaryView_def)


section \<open>The derived features\<close>

lemma mk_number_not_NaN: "mk_number s q \<noteq> NaN"
  by (simp add: mk_number_def split: option.splits)

lemma js_div_by_zero: "is_zero w \<Longrightarrow> \<not> isFinite (js_div d w)"
  by (cases d; cases w) auto

lemma round_60000: "mk_number False 60000 = Finite False 60000"
  by code_simp

lemma round_10: "mk_number False 10 = Finite False 10"
  by code_simp

lemma round_300000: "mk_number False 300000 = Finite False 300000"
  by code_simp

lemma round_6000th:
  "mk_number False (1 / 6000) = Finite False (6148914691236517 / 36893488147419103232)"
  by code_simp

lemma round_zero: "mk_number s 0 = Finite s 0"
  by (simp add: mk_number_def round_double_def)

lemma parse_0: "parseFloat ''0'' = Finite False 0"
  by code_simp

lemma parseFloat_empty: "parseFloat [] = NaN"
  by (simp add: parseFloat_def trimStart_def)


text \<open>
  Claim C5. The payload holds the product of speed and torque, the difference of the
  two temperatures, the product of power and wear, and the quotient of difference and
  power, each the operation of the language on numbers; each of the two type flags is 0
  or 1, \<open>type_l\<close> is 1 exactly for the type L and \<open>type_m\<close> exactly for M, both are
  0 exactly for H among the three types, and they are never both 1.
\<close>

theorem derived_features:
  "p_power (derive_payload f) = js_mul (rotational_speed_rpm f) (torque_nm f) \<and>
   p_temperature_difference (derive_payload f)
     = js_sub (process_temperature_k f) (air_temperature_k f) \<and>
   p_power_wear (derive_payload f) = js_mul (p_power (derive_payload f)) (tool_wear_min f) \<and>
   p_temperature_power (derive_payload f)
     = js_div (p_temperature_difference (derive_payload f)) (p_power (derive_payload f)) \<and>
   p_type_l (derive_payload f) \<in> {0, 1} \<and> p_type_m (derive_payload f) \<in> {0, 1} \<and>
   (p_type_l (derive_payload f) = 1 \<longleftrightarrow> type f = ''L'') \<and>
   (p_type_m (derive_payload f) = 1 \<longleftrightarrow> type f = ''M'') \<and>
   (type f \<in> {''H'', ''L'', ''M''} \<longrightarrow>
      (p_type_l (derive_payload f) = 0 \<and> p_type_m (derive_payload f) = 0 \<longleftrightarrow> type f = ''H'')) \<and>
   \<not> (p_type_l (derive_payload f) = 1 \<and> p_type_m (derive_payload f) = 1)"
  by (auto simp: derive_payload_def Let_def)

theorem derived_features_witness:
  "derive_payload initial_form =
     \<lparr>p_air_temperature_k = Finite False 300,
      p_process_temperature_k = Finite False 310,
      p_rotational_speed_rpm = Finite False 1500,
      p_torque_nm = Finite False 40,
      p_tool_wear_min = Finite False 5,
      p_power = Finite False 60000,
      p_power_wear = Finite False 300000,
      p_temperature_difference = Finite False 10,
      p_temperature_power = Finite False (6148914691236517 / 36893488147419103232),
      p_type_l = 0,
      p_type_m = 0,
      p_type = ''H''\<rparr>"
  using derived_features [of initial_form]
  by (simp add: derive_payload_def initial_form_def js_sub_def signed_def Let_def
      round_60000 round_10 round_300000 round_6000th)

lemma pow2_powi: "pow2 k = power_int 2 k"
  by (simp add: pow2_def power_int_def power_inverse [symmetric] inverse_eq_divide power_one_over)

lemma pow2_mono: "a \<le> b \<Longrightarrow> pow2 a \<le> pow2 b"
  by (simp add: pow2_powi power_int_increasing)

lemma floor_log2_lower:
  assumes "0 < x"
  shows "pow2 (floor_log2 x) \<le> x"
proof -
  obtain a b where q: "quotient_of x = (a, b)" by (cases "quotient_of x")
  have b: "0 < b" using q by (rule quotient_of_denom_pos)
  have x: "x = of_int a / of_int b" using q by (rule quotient_of_div)
  have a: "0 < a" using assms b x by (simp add: zero_less_divide_iff)
  let ?k = "bitlen a - bitlen b"
  show ?thesis
  proof (cases "pow2 ?k \<le> x")
    case True
    then show ?thesis by (simp add: floor_log2_def q)
  next
    case False
    have la: "1 \<le> bitlen a" using a by (simp add: bitlen_alt_def)
    have "2 ^ nat (bitlen a - 1) \<le> a" using bitlen_bounds [OF a] by simp
    then have "(of_int (2 ^ nat (bitlen a - 1)) :: rat) \<le> of_int a"
      by (simp only: of_int_le_iff)
    then have lo: "power_int 2 (bitlen a - 1) \<le> (of_int a :: rat)"
      using la by (simp add: power_int_def)
    have "b < 2 ^ nat (bitlen b)" using bitlen_bounds [OF b] by simp
    then have "(of_int b :: rat) < of_int (2 ^ nat (bitlen b))"
      by (simp only: of_int_less_iff)
    then have hi: "(of_int b :: rat) \<le> power_int 2 (bitlen b)"
      using bitlen_nonneg [of b] by (simp add: power_int_def)
    have "power_int 2 (bitlen a - 1) / power_int 2 (bitlen b) \<le> (of_int a :: rat) / of_int b"
      using lo hi a b by (intro frac_le) simp_all
    moreover have "power_int (2::rat) (bitlen a - 1 - bitlen b)
                     = power_int 2 (bitlen a - 1) / power_int 2 (bitlen b)"
      by (rule power_int_diff) simp
    moreover have "bitlen a - 1 - bitlen b = ?k - 1" by simp
    ultimately have "power_int 2 (?k - 1) \<le> x"
      by (simp only: x)
    with False show ?thesis by (simp add: floor_log2_def q pow2_powi)
  qed
qed

lemma round_half_even_le:
  assumes "m \<le> of_int N"
  shows "round_half_even m \<le> N"
proof -
  have f: "\<lfloor>m\<rfloor> \<le> N" using assms by (simp add: floor_le_iff)
  show ?thesis
  proof (cases "\<lfloor>m\<rfloor> = N")
    case True
    then have "m - of_int \<lfloor>m\<rfloor> \<le> 0" using assms by simp
    then show ?thesis using True by (simp add: round_half_even_def Let_def)
  next
    case False
    with f have "\<lfloor>m\<rfloor> + 1 \<le> N" by simp
    with f show ?thesis by (simp add: round_half_even_def Let_def)
  qed
qed

lemma round_double_finite:
  assumes "0 \<le> x" and "x \<le> max_double"
  shows "round_double x \<noteq> None"
proof (cases "x = 0")
  case True
  then show ?thesis by (simp add: round_double_def)
next
  case False
  with assms have pos: "0 < x" by simp
  have "max_double < pow2 1024" by (simp add: max_double_def pow2_def)
  with assms have lt: "x < pow2 1024" by simp
  have e0: "floor_log2 x \<le> 1023"
  proof (rule ccontr)
    assume "\<not> floor_log2 x \<le> 1023"
    then have "pow2 1024 \<le> pow2 (floor_log2 x)" by (intro pow2_mono) simp
    with floor_log2_lower [OF pos] lt show False by simp
  qed
  let ?e = "max (floor_log2 x) (- 1022)"
  have e: "?e \<le> 1023" using e0 by simp
  have top: "round_half_even (x / pow2 (?e - 52)) < 2 ^ 53" if "?e = 1023"
  proof -
    have "x / pow2 971 \<le> of_int (2 ^ 53 - 1)"
      using assms(2) by (simp add: max_double_def pow2_def field_simps)
    then have "round_half_even (x / pow2 971) \<le> 2 ^ 53 - 1"
      by (rule round_half_even_le)
    with that show ?thesis by simp
  qed
  show ?thesis
    using e top False by (auto simp: round_double_def Let_def)
qed

lemma js_div_finite:
  assumes "0 \<le> x" and "0 < y" and "x / y \<le> max_double"
  shows "isFinite (js_div (Finite s x) (Finite t y))"
proof -
  have "0 \<le> x / y" using assms by simp
  from round_double_finite [OF this assms(3)] assms(2) show ?thesis
    by (auto simp: mk_number_def split: option.splits)
qed

lemma js_div_not_NaN: "y \<noteq> 0 \<Longrightarrow> \<not> isNaN (js_div (Finite s x) (Finite t y))"
  by (simp add: mk_number_def split: option.splits)

text \<open>
  Claim C6, amended. Whenever the power is zero, the quotient is \<open>NaN\<close> or an
  infinity. When difference and power are finite and the power is not zero, the
  quotient is never \<open>NaN\<close>, and it is finite when the exact quotient of the magnitudes
  is at most the largest finite number. The request is posted with the payload as
  derived, whatever its values.
\<close>

theorem temperature_power_cases:
  "(is_zero (p_power (derive_payload f)) \<longrightarrow>
      \<not> isFinite (p_temperature_power (derive_payload f))) \<and>
   (p_temperature_difference (derive_payload f) = Finite s x \<and>
    p_power (derive_payload f) = Finite t y \<and> y \<noteq> 0 \<longrightarrow>
      \<not> isNaN (p_temperature_power (derive_payload f))) \<and>
   (p_temperature_difference (derive_payload f) = Finite s x \<and>
    p_power (derive_payload f) = Finite t y \<and> 0 \<le> x \<and> 0 < y \<and> x / y \<le> max_double \<longrightarrow>
      isFinite (p_temperature_power (derive_payload f))) \<and>
   posted (submit_request st) = posted st @ [derive_payload (form st)]"
proof -
  have tp: "p_temperature_power (derive_payload f)
              = js_div (p_temperature_difference (derive_payload f)) (p_power (derive_payload f))"
    by (simp add: derive_payload_def Let_def)
  show ?thesis
    unfolding tp
    using js_div_by_zero js_div_not_NaN js_div_finite
    by (auto simp: submit_request_def)
qed

theorem temperature_power_cases_witness:
  "is_zero (p_power (derive_payload (form (handleChange ''rotational_speed_rpm'' ''0'' initial)))) \<and>
   p_temperature_power (derive_payload (form (handleChange ''rotational_speed_rpm'' ''0'' initial)))
     = Infinity False \<and>
   p_temperature_difference (derive_payload initial_form) = Finite False 10 \<and>
   p_power (derive_payload initial_form) = Finite False 60000 \<and>
   (10 :: rat) / 60000 \<le> max_double \<and>
   isFinite (p_temperature_power (derive_payload initial_form)) \<and>
   posted (submit_request initial) = [derive_payload initial_form]"
proof -
  let ?f0 = "form (handleChange ''rotational_speed_rpm'' ''0'' initial)"
  have f0: "?f0 = initial_form\<lparr>rotational_speed_rpm := Finite False 0\<rparr>"
    by (simp add: handleChange_def set_number_def parse_0 initial_def)
  have zero: "p_power (derive_payload ?f0) = Finite False 0"
    by (simp add: f0 derive_payload_def initial_form_def Let_def round_zero)
  have inf: "p_temperature_power (derive_payload ?f0) = Infinity False"
    by (simp add: f0 derive_payload_def initial_form_def Let_def round_zero js_sub_def
        signed_def round_10)
  have d: "p_temperature_difference (derive_payload initial_form) = Finite False 10"
    by (simp add: derive_payload_def initial_form_def Let_def js_sub_def signed_def round_10)
  have w: "p_power (derive_payload initial_form) = Finite False 60000"
    by (simp add: derive_payload_def initial_form_def Let_def round_60000)
  have q: "(10 :: rat) / 60000 \<le> max_double"
    by (simp add: max_double_def)
  have fin: "isFinite (p_temperature_power (derive_payload initial_form))"
    using temperature_power_cases [of initial_form False 10 False 60000 initial] d w q
    by simp
  have sent: "posted (submit_request initial) = [derive_payload initial_form]"
    using temperature_power_cases [of initial_form False 10 False 60000 initial]
    by (simp add: initial_def)
  from zero inf d w q fin sent show ?thesis by simp
qed

text \<open>
  Claim C6 as it is written fails: after the air temperature has been cleared in the
  form, the power is 60000 and the quotient is \<open>NaN\<close>.
\<close>

theorem nonzero_power_not_finite:
  "p_power (derive_payload (form (handleChange ''air_temperature_k'' [] initial)))
     = Finite False 60000 \<and>
   p_temperature_power (derive_payload (form (handleChange ''air_temperature_k'' [] initial)))
     = NaN"
  by (simp add: handleChange_def set_number_def parseFloat_empty initial_def initial_form_def
      derive_payload_def Let_def round_60000 js_sub_def)



section \<open>Loading a file\<close>

lemmas csv_notions =
  csv_lines_def csv_header_def csv_get_def csv_number_def csv_uid_def csv_type_def

lemma onload_invalid:
  assumes "2 \<le> length (csv_lines t)" and "\<not> passes_validation t"
  shows "onload t st = st\<lparr>csvError := columns_message\<rparr>"
  using assms
  by (simp add: onload_def Let_def passes_validation_def csv_notions)

lemma onload_valid:
  assumes "passes_validation t"
  shows "onload t st = st\<lparr>form := csv_form t (form st)\<rparr>"
  using assms
  by (auto simp: onload_def Let_def passes_validation_def csv_form_def csv_notions)

lemma parseFloat_null: "parseFloat ''null'' = NaN"
  by (simp add: parseFloat_def trimStart_def is_space_def is_digit_def)

lemma parseFloat_undefined: "parseFloat ''undefined'' = NaN"
  by (simp add: parseFloat_def trimStart_def is_space_def is_digit_def)

lemma indexOf_missing: "c \<notin> set xs \<Longrightarrow> indexOf c xs = - 1"
  unfolding indexOf_def by (rule findIndex_none) auto

lemma get_missing: "c \<notin> set header \<Longrightarrow> get header row c = Null"
  by (simp add: get_def indexOf_missing)

lemma csv_number_missing: "c \<notin> set (csv_header t) \<Longrightarrow> isNaN (csv_number t c)"
  by (simp add: csv_number_def csv_get_def get_missing parseFloat_null)

lemma csv_uid_missing:
  "''UDI'' \<notin> set (csv_header t) \<Longrightarrow> ''uid'' \<notin> set (csv_header t) \<Longrightarrow>
   ''UID'' \<notin> set (csv_header t) \<Longrightarrow> \<not> truthy (csv_uid t)"
  by (simp add: csv_uid_def csv_get_def get_missing js_or_def)

lemma csv_type_missing: "''Type'' \<notin> set (csv_header t) \<Longrightarrow> csv_type t = ''H''"
  by (simp add: csv_type_def csv_get_def get_missing js_or_def trim_def is_space_def)

lemma frame_onload:
  "onload t st = st\<lparr>form := form (onload t st), csvError := csvError (onload t st)\<rparr>"
  by (simp add: onload_def Let_def)

lemma csv_get_rows:
  "csv_lines t = h # r # rest \<Longrightarrow> csv_get t c = get (cells h) (cells r) c"
  by (simp add: csv_get_def csv_header_def)

lemma parse_298_1: "parseFloat ''298.1'' = Finite False (2622115329920205 / 8796093022208)"
  by code_simp

lemma parse_308_6: "parseFloat ''308.6'' = Finite False (2714474306653389 / 8796093022208)"
  by code_simp

lemma parse_1551: "parseFloat ''1551'' = Finite False 1551"
  by code_simp

lemma parse_42_8: "parseFloat ''42.8'' = Finite False (3011782250804019 / 70368744177664)"
  by code_simp

lemma no_type_lines:
  "csv_lines sample_csv_no_type =
     [''UDI,Air temperature [K],Process temperature [K],Rotational speed [rpm],Torque [Nm],Tool wear [min]'',
      ''1,298.1,308.6,1551,42.8,0'']"
  by code_simp

lemma no_type_header:
  "cells ''UDI,Air temperature [K],Process temperature [K],Rotational speed [rpm],Torque [Nm],Tool wear [min]''
     = [''UDI'', ''Air temperature [K]'', ''Process temperature [K]'', ''Rotational speed [rpm]'',
        ''Torque [Nm]'', ''Tool wear [min]'']"
  by code_simp

lemma no_type_row:
  "cells ''1,298.1,308.6,1551,42.8,0'' = [''1'', ''298.1'', ''308.6'', ''1551'', ''42.8'', ''0'']"
  by code_simp

lemma no_type_valid: "passes_validation sample_csv_no_type"
  by (simp add: passes_validation_def csv_uid_def csv_number_def csv_get_rows [OF no_type_lines]
      no_type_lines no_type_header no_type_row get_def indexOf_def js_or_def
      parse_298_1 parse_308_6 parse_1551 parse_42_8 parse_0)

lemma no_type_form:
  "csv_form sample_csv_no_type initial_form =
     \<lparr>uid = ''1'',
      air_temperature_k = Finite False (2622115329920205 / 8796093022208),
      process_temperature_k = Finite False (2714474306653389 / 8796093022208),
      rotational_speed_rpm = Finite False 1551,
      torque_nm = Finite False (3011782250804019 / 70368744177664),
      tool_wear_min = Finite False 0,
      type = ''H''\<rparr>"
  by (simp add: csv_form_def csv_uid_def csv_number_def csv_type_def csv_get_rows [OF no_type_lines]
      no_type_header no_type_row get_def indexOf_def js_or_def initial_form_def
      trim_def is_space_def
      parse_298_1 parse_308_6 parse_1551 parse_42_8 parse_0)

lemma no_type_header_set:
  "csv_header sample_csv_no_type
     = [''UDI'', ''Air temperature [K]'', ''Process temperature [K]'', ''Rotational speed [rpm]'',
        ''Torque [Nm]'', ''Tool wear [min]'']"
  by (simp add: csv_header_def no_type_lines no_type_header)

lemma no_torque_lines:
  "csv_lines sample_csv_no_torque =
     [''UDI,Type,Air temperature [K],Process temperature [K],Rotational speed [rpm],Tool wear [min]'',
      ''1,M,298.1,308.6,1551,0'']"
  by code_simp

lemma no_torque_header:
  "cells ''UDI,Type,Air temperature [K],Process temperature [K],Rotational speed [rpm],Tool wear [min]''
     = [''UDI'', ''Type'', ''Air temperature [K]'', ''Process temperature [K]'',
        ''Rotational speed [rpm]'', ''Tool wear [min]'']"
  by code_simp

lemma odd_type_lines:
  "csv_lines sample_csv_odd_type =
     [''uid,Type,Air temperature [K],Process temperature [K],Rotational speed [rpm],Torque [Nm],Tool wear [min]'',
      ''M7,X,298.1,308.6,1551,42.8,0'']"
  by code_simp

lemma odd_type_header:
  "cells ''uid,Type,Air temperature [K],Process temperature [K],Rotational speed [rpm],Torque [Nm],Tool wear [min]''
     = [''uid'', ''Type'', ''Air temperature [K]'', ''Process temperature [K]'',
        ''Rotational speed [rpm]'', ''Torque [Nm]'', ''Tool wear [min]'']"
  by code_simp

lemma odd_type_row:
  "cells ''M7,X,298.1,308.6,1551,42.8,0'' = [''M7'', ''X'', ''298.1'', ''308.6'', ''1551'', ''42.8'', ''0'']"
  by code_simp

lemma odd_type_valid: "passes_validation sample_csv_odd_type"
  by (simp add: passes_validation_def csv_uid_def csv_number_def csv_get_rows [OF odd_type_lines]
      odd_type_lines odd_type_header odd_type_row get_def indexOf_def js_or_def
      parse_298_1 parse_308_6 parse_1551 parse_42_8 parse_0)

lemma odd_type_type: "csv_type sample_csv_odd_type = ''X''"
  by (simp add: csv_type_def csv_get_rows [OF odd_type_lines] odd_type_header odd_type_row
      get_def indexOf_def js_or_def trim_def is_space_def)

lemma full_lines:
  "csv_lines sample_csv_full =
     [''UDI,Product ID,Type,Air temperature [K],Process temperature [K],Rotational speed [rpm],Torque [Nm],Tool wear [min]'',
      ''1,M14860,M,298.1,308.6,1551,42.8,0'']"
  by code_simp

lemma full_header:
  "cells ''UDI,Product ID,Type,Air temperature [K],Process temperature [K],Rotational speed [rpm],Torque [Nm],Tool wear [min]''
     = [''UDI'', ''Product ID'', ''Type'', ''Air temperature [K]'', ''Process temperature [K]'',
        ''Rotational speed [rpm]'', ''Torque [Nm]'', ''Tool wear [min]'']"
  by code_simp

lemma full_row:
  "cells ''1,M14860,M,298.1,308.6,1551,42.8,0''
     = [''1'', ''M14860'', ''M'', ''298.1'', ''308.6'', ''1551'', ''42.8'', ''0'']"
  by code_simp

lemma full_valid: "passes_validation sample_csv_full"
  by (simp add: passes_validation_def csv_uid_def csv_number_def csv_get_rows [OF full_lines]
      full_lines full_header full_row get_def indexOf_def js_or_def
      parse_298_1 parse_308_6 parse_1551 parse_42_8 parse_0)

lemma full_form:
  "csv_form sample_csv_full initial_form =
     \<lparr>uid = ''1'',
      air_temperature_k = Finite False (2622115329920205 / 8796093022208),
      process_temperature_k = Finite False (2714474306653389 / 8796093022208),
      rotational_speed_rpm = Finite False 1551,
      torque_nm = Finite False (3011782250804019 / 70368744177664),
      tool_wear_min = Finite False 0,
      type = ''M''\<rparr>"
  by (simp add: csv_form_def csv_uid_def csv_number_def csv_type_def csv_get_rows [OF full_lines]
      full_header full_row get_def indexOf_def js_or_def initial_form_def
      trim_def is_space_def
      parse_298_1 parse_308_6 parse_1551 parse_42_8 parse_0)

text \<open>
  Claim C8, amended. For a text of two lines or more in which no id column holds a
  value, or one of the five numeric columns is absent or holds no number, the handler
  sets the message about the columns and changes nothing else. A text that passes the
  checks leaves no message and a type that is the trimmed cell when this is H, L or M,
  and H otherwise; without a column of the type the cell counts as H.
\<close>

theorem csv_validation_error:
  "(2 \<le> length (csv_lines t) \<and>
      ((''UDI'' \<notin> set (csv_header t) \<and> ''uid'' \<notin> set (csv_header t)
          \<and> ''UID'' \<notin> set (csv_header t))
       \<or> \<not> truthy (csv_uid t)
       \<or> (\<exists>c\<in>set numeric_columns. c \<notin> set (csv_header t) \<or> isNaN (csv_number t c)))
     \<longrightarrow> handleCsvUpload (Some (ReadText t)) st = st\<lparr>csvError := columns_message\<rparr>) \<and>
   (passes_validation t \<longrightarrow>
      csvError (handleCsvUpload (Some (ReadText t)) st) = [] \<and>
      type (form (handleCsvUpload (Some (ReadText t)) st))
        = (if csv_type t \<in> {''H'', ''L'', ''M''} then csv_type t else ''H'')) \<and>
   (''Type'' \<notin> set (csv_header t) \<longrightarrow> csv_type t = ''H'')"
proof (intro conjI impI)
  assume h: "2 \<le> length (csv_lines t) \<and>
      ((''UDI'' \<notin> set (csv_header t) \<and> ''uid'' \<notin> set (csv_header t)
          \<and> ''UID'' \<notin> set (csv_header t))
       \<or> \<not> truthy (csv_uid t)
       \<or> (\<exists>c\<in>set numeric_columns. c \<notin> set (csv_header t) \<or> isNaN (csv_number t c)))"
  then have "\<not> truthy (csv_uid t) \<or> (\<exists>c\<in>set numeric_columns. isNaN (csv_number t c))"
    using csv_uid_missing [of t] csv_number_missing [of _ t] by blast
  then have "\<not> passes_validation t"
    by (auto simp: passes_validation_def numeric_columns_def)
  with h show "handleCsvUpload (Some (ReadText t)) st = st\<lparr>csvError := columns_message\<rparr>"
    by (simp add: handleCsvUpload_def onload_invalid)
next
  assume "passes_validation t"
  then show "csvError (handleCsvUpload (Some (ReadText t)) st) = []"
    by (simp add: handleCsvUpload_def onload_valid)
next
  assume "passes_validation t"
  then show "type (form (handleCsvUpload (Some (ReadText t)) st))
        = (if csv_type t \<in> {''H'', ''L'', ''M''} then csv_type t else ''H'')"
    by (simp add: handleCsvUpload_def onload_valid csv_form_def)
next
  assume "''Type'' \<notin> set (csv_header t)"
  then show "csv_type t = ''H''" by (rule csv_type_missing)
qed

theorem csv_validation_error_witness:
  "2 \<le> length (csv_lines sample_csv_no_torque) \<and>
   ''Torque [Nm]'' \<notin> set (csv_header sample_csv_no_torque) \<and>
   handleCsvUpload (Some (ReadText sample_csv_no_torque))
       (initial\<lparr>assets := [machine ''A'' ''Green'']\<rparr>)
     = initial\<lparr>assets := [machine ''A'' ''Green''], csvError := columns_message\<rparr> \<and>
   passes_validation sample_csv_odd_type \<and>
   csv_type sample_csv_odd_type = ''X'' \<and>
   csvError (handleCsvUpload (Some (ReadText sample_csv_odd_type)) initial) = [] \<and>
   type (form (handleCsvUpload (Some (ReadText sample_csv_odd_type)) initial)) = ''H'' \<and>
   ''Type'' \<notin> set (csv_header sample_csv_no_type) \<and>
   csv_type sample_csv_no_type = ''H''"
proof -
  let ?st = "initial\<lparr>assets := [machine ''A'' ''Green'']\<rparr>"
  have two: "2 \<le> length (csv_lines sample_csv_no_torque)"
    by (simp add: no_torque_lines)
  have gone: "''Torque [Nm]'' \<notin> set (csv_header sample_csv_no_torque)"
    by (simp add: csv_header_def no_torque_lines no_torque_header)
  have col: "''Torque [Nm]'' \<in> set numeric_columns"
    by (simp add: numeric_columns_def)
  have refused: "handleCsvUpload (Some (ReadText sample_csv_no_torque)) ?st
                   = ?st\<lparr>csvError := columns_message\<rparr>"
    using csv_validation_error [of sample_csv_no_torque ?st] two gone col by blast
  have quiet: "csvError (handleCsvUpload (Some (ReadText sample_csv_odd_type)) initial) = []"
    using csv_validation_error [of sample_csv_odd_type initial] odd_type_valid by blast
  have "type (form (handleCsvUpload (Some (ReadText sample_csv_odd_type)) initial))
          = (if csv_type sample_csv_odd_type \<in> {''H'', ''L'', ''M''}
             then csv_type sample_csv_odd_type else ''H'')"
    using csv_validation_error [of sample_csv_odd_type initial] odd_type_valid by blast
  then have fallback: "type (form (handleCsvUpload (Some (ReadText sample_csv_odd_type)) initial)) = ''H''"
    by (simp add: odd_type_type)
  have untyped: "''Type'' \<notin> set (csv_header sample_csv_no_type)"
    by (simp add: no_type_header_set)
  have dflt: "csv_type sample_csv_no_type = ''H''"
    using csv_validation_error [of sample_csv_no_type initial] untyped by blast
  from two gone refused odd_type_valid odd_type_type quiet fallback untyped dflt
  show ?thesis by simp
qed

text \<open>
  Claim C8 as it is written fails: the sample without the column \<^verbatim>\<open>Type\<close>, one of
  the required labels, raises no error and its row replaces the form.
\<close>

theorem missing_type_column_accepted:
  "''Type'' \<notin> set (csv_header sample_csv_no_type) \<and>
   handleCsvUpload (Some (ReadText sample_csv_no_type)) initial =
     initial\<lparr>form :=
       \<lparr>uid = ''1'',
        air_temperature_k = Finite False (2622115329920205 / 8796093022208),
        process_temperature_k = Finite False (2714474306653389 / 8796093022208),
        rotational_speed_rpm = Finite False 1551,
        torque_nm = Finite False (3011782250804019 / 70368744177664),
        tool_wear_min = Finite False 0,
        type = ''H''\<rparr>\<rparr>"
  by (simp add: no_type_header_set handleCsvUpload_def onload_valid [OF no_type_valid]
      no_type_form [symmetric] initial_def)

lemma frame_handleCsvUpload:
  "assets (handleCsvUpload chosen st) = assets st \<and>
   result (handleCsvUpload chosen st) = result st \<and>
   posted (handleCsvUpload chosen st) = posted st \<and>
   loading (handleCsvUpload chosen st) = loading st \<and>
   error (handleCsvUpload chosen st) = error st \<and>
   activePage (handleCsvUpload chosen st) = activePage st"
proof (cases chosen)
  case None
  then show ?thesis by (simp add: handleCsvUpload_def)
next
  case (Some r)
  show ?thesis
  proof (cases r)
    case (ReadText t)
    have "onload t (st\<lparr>csvError := []\<rparr>)
            = st\<lparr>csvError := [], form := form (onload t (st\<lparr>csvError := []\<rparr>)),
                 csvError := csvError (onload t (st\<lparr>csvError := []\<rparr>))\<rparr>"
      using frame_onload [of t "st\<lparr>csvError := []\<rparr>"] by simp
    then have "handleCsvUpload chosen st
                 = st\<lparr>form := form (onload t (st\<lparr>csvError := []\<rparr>)),
                      csvError := csvError (onload t (st\<lparr>csvError := []\<rparr>))\<rparr>"
      using Some ReadText by (simp add: handleCsvUpload_def)
    then show ?thesis by simp
  next
    case ReadOther
    with Some show ?thesis by (simp add: handleCsvUpload_def)
  next
    case ReadError
    with Some show ?thesis by (simp add: handleCsvUpload_def)
  qed
qed

text \<open>
  Claim C9. Loading a file leaves the registry, the result, the posted requests, the
  loading flag, the error and the page as they were, and with the registry the table
  and the summary; a text that passes the checks
  changes the form to the fields of its row and clears the error of the CSV input, and
  nothing else.
\<close>

theorem csv_changes_form_only:
  "assets (handleCsvUpload chosen st) = assets st \<and>
   result (handleCsvUpload chosen st) = result st \<and>
   posted (handleCsvUpload chosen st) = posted st \<and>
   loading (handleCsvUpload chosen st) = loading st \<and>
   error (handleCsvUpload chosen st) = error st \<and>
   activePage (handleCsvUpload chosen st) = activePage st \<and>
   DetailedTableView (assets (handleCsvUpload chosen st)) = DetailedTableView (assets st) \<and>
   HealthSummaryView (assets (handleCsvUpload chosen st)) = HealthSummaryView (assets st) \<and>
   (passes_validation t \<longrightarrow>
      handleCsvUpload (Some (ReadText t)) st
        = st\<lparr>form := csv_form t (form st), csvError := []\<rparr>)"
  using frame_handleCsvUpload [of chosen st]
  by (simp add: handleCsvUpload_def onload_valid)

theorem csv_changes_form_only_witness:
  "passes_validation sample_csv_full \<and>
   handleCsvUpload (Some (ReadText sample_csv_full))
       (initial\<lparr>assets := [machine ''A'' ''Green''], csvError := columns_message\<rparr>)
     = initial\<lparr>assets := [machine ''A'' ''Green''],
         form :=
           \<lparr>uid = ''1'',
            air_temperature_k = Finite False (2622115329920205 / 8796093022208),
            process_temperature_k = Finite False (2714474306653389 / 8796093022208),
            rotational_speed_rpm = Finite False 1551,
            torque_nm = Finite False (3011782250804019 / 70368744177664),
            tool_wear_min = Finite False 0,
            type = ''M''\<rparr>\<rparr>"
proof -
  let ?st = "initial\<lparr>assets := [machine ''A'' ''Green''], csvError := columns_message\<rparr>"
  have "handleCsvUpload (Some (ReadText sample_csv_full)) ?st
          = ?st\<lparr>form := csv_form sample_csv_full (form ?st), csvError := []\<rparr>"
    using csv_changes_form_only [of "Some (ReadText sample_csv_full)" ?st sample_csv_full]
      full_valid by blast
  moreover have "form ?st = initial_form" by (simp add: initial_def)
  ultimately have "handleCsvUpload (Some (ReadText sample_csv_full)) ?st
          = ?st\<lparr>form := csv_form sample_csv_full initial_form, csvError := []\<rparr>"
    by simp
  then show ?thesis
    by (simp add: full_valid full_form initial_def)
qed


end
